theory Spec2Isabelle
  imports Main
begin

section \<open>JavaScript values\<close>

text \<open>
  The library of \<^verbatim>\<open>src/index.ts\<close> is generic in its payload type \<open>T\<close>; at run time
  every payload is a JavaScript value. The values are modelled as a datatype: the
  primitives, plain arrays, objects, functions and Error objects. An object is the list of
  its own enumerable data properties, read as an object literal reads: where a key stands
  twice, the later entry is the property's value. A function is opaque but for the
  properties it carries. An Error object has the name of its class and its message, which
  can be read but are not enumerable; the trace it carries is not part of the model.
  Numbers are opaque payloads, taken to be integers. Accessor properties, proxies and
  properties inherited from \<^verbatim>\<open>Object.prototype\<close> are outside the model.
\<close>

datatype jsval =
    VUndefined
  | VNull
  | VBool bool
  | VNum int
  | VStr string
  | VArr "jsval list"
  | VObj "(string \<times> jsval) list"
  | VFun "(string \<times> jsval) list"
  | VError string string

text \<open>A call either returns a value or throws one (any value can be thrown).\<close>

datatype 'a completion = Returns 'a | Throws jsval

text \<open>
  A promise, as seen by whoever awaits it: fulfilled, rejected, or never settled.
\<close>

datatype 'a promise = Fulfilled 'a | Rejected jsval | Pending

text \<open>The \<^verbatim>\<open>typeof\<close> operator.\<close>

fun typeof :: "jsval \<Rightarrow> string" where
  "typeof VUndefined = ''undefined''"
| "typeof VNull = ''object''"
| "typeof (VBool b) = ''boolean''"
| "typeof (VNum n) = ''number''"
| "typeof (VStr s) = ''string''"
| "typeof (VArr xs) = ''object''"
| "typeof (VObj ps) = ''object''"
| "typeof (VFun ps) = ''function''"
| "typeof (VError n m) = ''object''"

text \<open>Array and string elements are properties named by their index in decimal.\<close>

definition digit_char :: "nat \<Rightarrow> char" where
  "digit_char d = ''0123456789'' ! d"

function index_key :: "nat \<Rightarrow> string" where
  "index_key n =
     (if n < 10 then [digit_char n] else index_key (n div 10) @ [digit_char (n mod 10)])"
  by pat_completeness auto
termination
  by (relation "measure id") auto

declare index_key.simps [simp del]

definition indexed :: "jsval list \<Rightarrow> (string \<times> jsval) list" where
  "indexed xs = zip (map index_key [0..<length xs]) xs"

text \<open>
  The properties an object spread \<^verbatim>\<open>...v\<close> copies: the own enumerable ones. Spreading
  \<^verbatim>\<open>undefined\<close>, \<^verbatim>\<open>null\<close>, a boolean, a number or an Error object copies nothing; a
  string spreads into its characters.
\<close>

fun own_enumerable :: "jsval \<Rightarrow> (string \<times> jsval) list" where
  "own_enumerable (VObj ps) = ps"
| "own_enumerable (VFun ps) = ps"
| "own_enumerable (VArr xs) = indexed xs"
| "own_enumerable (VStr s) = indexed (map (\<lambda>c. VStr [c]) s)"
| "own_enumerable VUndefined = []"
| "own_enumerable VNull = []"
| "own_enumerable (VBool b) = []"
| "own_enumerable (VNum n) = []"
| "own_enumerable (VError n m) = []"

text \<open>
  The properties a read or \<^verbatim>\<open>in\<close> sees: arrays and strings also have \<^verbatim>\<open>length\<close>,
  Error objects their \<^verbatim>\<open>name\<close> and \<^verbatim>\<open>message\<close>.
\<close>

fun own_props :: "jsval \<Rightarrow> (string \<times> jsval) list" where
  "own_props (VArr xs) = indexed xs @ [(''length'', VNum (int (length xs)))]"
| "own_props (VStr s) = indexed (map (\<lambda>c. VStr [c]) s) @ [(''length'', VNum (int (length s)))]"
| "own_props (VError n m) = [(''name'', VStr n), (''message'', VStr m)]"
| "own_props v = own_enumerable v"

text \<open>Looking a key up in a property list: the last entry for the key.\<close>

definition lookup :: "(string \<times> jsval) list \<Rightarrow> string \<Rightarrow> jsval option" where
  "lookup ps k = map_of (rev ps) k"

text \<open>
  \<^verbatim>\<open>new Error(msg)\<close>, and the TypeError the runtime throws; the text of its message is
  the engine's.
\<close>

definition new_Error :: "string \<Rightarrow> jsval" where
  "new_Error msg = VError ''Error'' msg"

definition TypeError :: "string \<Rightarrow> jsval" where
  "TypeError msg = VError ''TypeError'' msg"

text \<open>
  The property read \<^verbatim>\<open>v.k\<close>: a TypeError on \<^verbatim>\<open>undefined\<close> and \<^verbatim>\<open>null\<close>,
  \<^verbatim>\<open>undefined\<close> for a property the value does not have.
\<close>

fun get_prop :: "jsval \<Rightarrow> string \<Rightarrow> jsval completion" where
  "get_prop VUndefined k = Throws (TypeError ''Cannot read properties of undefined'')"
| "get_prop VNull k = Throws (TypeError ''Cannot read properties of null'')"
| "get_prop v k =
     Returns (case lookup (own_props v) k of None \<Rightarrow> VUndefined | Some x \<Rightarrow> x)"

text \<open>The operator \<^verbatim>\<open>k in v\<close>: a TypeError unless \<open>v\<close> is an object or a function.\<close>

fun in_op :: "string \<Rightarrow> jsval \<Rightarrow> bool completion" where
  "in_op k (VObj ps) = Returns (k \<in> set (map fst (own_props (VObj ps))))"
| "in_op k (VArr xs) = Returns (k \<in> set (map fst (own_props (VArr xs))))"
| "in_op k (VFun ps) = Returns (k \<in> set (map fst (own_props (VFun ps))))"
| "in_op k (VError n m) = Returns (k \<in> set (map fst (own_props (VError n m))))"
| "in_op k v = Throws (TypeError ''Cannot use in operator to search for a key in a primitive'')"

section \<open>The library\<close>

text \<open>\<^verbatim>\<open>export function ok(value) { return value; }\<close>\<close>

definition ok :: "jsval \<Rightarrow> jsval" where
  "ok v = v"

text \<open>
  \<^verbatim>\<open>return { ok: false, ...reason, stack: new Error().stack! };\<close>
  The trace that \<^verbatim>\<open>new Error().stack\<close> yields at the call is a parameter: its text
  belongs to the runtime.
\<close>

definition err :: "jsval \<Rightarrow> string \<Rightarrow> jsval" where
  "err reason trace =
     VObj ([(''ok'', VBool False)] @ own_enumerable reason @ [(''stack'', VStr trace)])"

text \<open>
  \<^verbatim>\<open>return typeof r === "object" && r !== null && "ok" in r && r.ok === false;\<close>
  The conjunction is evaluated left to right and stops at the first false operand.
\<close>

definition isErr :: "jsval \<Rightarrow> bool completion" where
  "isErr r =
     (if typeof r = ''object'' then
        if r \<noteq> VNull then
          (case in_op ''ok'' r of
             Throws x \<Rightarrow> Throws x
           | Returns b \<Rightarrow>
               if b then
                 (case get_prop r ''ok'' of
                    Throws x \<Rightarrow> Throws x
                  | Returns v \<Rightarrow> Returns (v = VBool False))
               else Returns False)
        else Returns False
      else Returns False)"

text \<open>\<^verbatim>\<open>return !isErr(r);\<close>\<close>

definition isOk :: "jsval \<Rightarrow> bool completion" where
  "isOk r = (case isErr r of Throws x \<Rightarrow> Throws x | Returns b \<Rightarrow> Returns (\<not> b))"

text \<open>
  The default of the parameter \<^verbatim>\<open>mapError\<close>:
  \<^verbatim>\<open>(e) => ({ reason: (e as Error).message } as E)\<close>. The casts are erased at run time.
\<close>

definition default_mapError :: "jsval \<Rightarrow> jsval completion" where
  "default_mapError e =
     (case get_prop e ''message'' of
        Throws x \<Rightarrow> Throws x
      | Returns m \<Rightarrow> Returns (VObj [(''reason'', m)]))"

text \<open>An omitted argument (\<open>None\<close>) takes the default.\<close>

definition mapper_of :: "(jsval \<Rightarrow> jsval completion) option \<Rightarrow> jsval \<Rightarrow> jsval completion" where
  "mapper_of mapError = (case mapError of None \<Rightarrow> default_mapError | Some m \<Rightarrow> m)"

text \<open>
  \<^verbatim>\<open>try { return ok(fn()); } catch (e) { return err(mapError(e)); }\<close>
  The callable is given by what a call of it does, once it has come back: it returns a
  value or throws one (while it runs, \<^verbatim>\<open>safe\<close> runs). \<open>trace\<close> is the trace the runtime
  captures inside \<^verbatim>\<open>err\<close>. What \<^verbatim>\<open>mapError\<close> throws is thrown from the catch block,
  out of \<^verbatim>\<open>safe\<close>.
\<close>

definition safe ::
  "(unit \<Rightarrow> jsval completion) \<Rightarrow> (jsval \<Rightarrow> jsval completion) option \<Rightarrow> string
    \<Rightarrow> jsval completion" where
  "safe fn mapError trace =
     (case fn () of
        Returns v \<Rightarrow> Returns (ok v)
      | Throws e \<Rightarrow>
          (case mapper_of mapError e of
             Throws x \<Rightarrow> Throws x
           | Returns r \<Rightarrow> Returns (err r trace)))"

text \<open>
  A value is a thenable when it is an object or a function whose property \<^verbatim>\<open>then\<close> is
  callable. A promise resolved with a value that is no thenable is fulfilled with it; a
  promise resolved with a thenable calls its \<^verbatim>\<open>then\<close> and follows it. What that
  \<^verbatim>\<open>then\<close> does is code of the caller's: \<open>adopt x\<close> is the state a promise resolved
  with the thenable \<open>x\<close> ends in, a parameter.
\<close>

definition is_object :: "jsval \<Rightarrow> bool" where
  "is_object v = (typeof v = ''function'' \<or> typeof v = ''object'' \<and> v \<noteq> VNull)"

fun callable :: "jsval \<Rightarrow> bool" where
  "callable (VFun ps) = True"
| "callable v = False"

definition thenable :: "jsval \<Rightarrow> bool" where
  "thenable x =
     (if is_object x then
        (case get_prop x ''then'' of Throws e \<Rightarrow> False | Returns f \<Rightarrow> callable f)
      else False)"

definition resolve_with :: "(jsval \<Rightarrow> jsval promise) \<Rightarrow> jsval \<Rightarrow> jsval promise" where
  "resolve_with adopt x = (if thenable x then adopt x else Fulfilled x)"

text \<open>
  \<^verbatim>\<open>try { return ok(await fn()); } catch (e) { return err(mapError(e)); }\<close>
  is the body of an \<^verbatim>\<open>async\<close> function. A call of \<open>fn\<close> throws at once or returns a
  promise, given by the state the \<^verbatim>\<open>await\<close> finds it in at last. The body returns a
  value, throws one, or never resumes (\<open>None\<close>) where the awaited promise never settles.
\<close>

definition safeAsync_body ::
  "(unit \<Rightarrow> jsval promise completion) \<Rightarrow> (jsval \<Rightarrow> jsval completion) option \<Rightarrow> string
    \<Rightarrow> jsval completion option" where
  "safeAsync_body fn mapError trace =
     (let catch = (\<lambda>e. case mapper_of mapError e of
                          Throws x \<Rightarrow> Some (Throws x)
                        | Returns r \<Rightarrow> Some (Returns (err r trace)))
      in case fn () of
           Throws e \<Rightarrow> catch e
         | Returns p \<Rightarrow>
             (case p of
                Fulfilled v \<Rightarrow> Some (Returns (ok v))
              | Rejected e \<Rightarrow> catch e
              | Pending \<Rightarrow> None))"

text \<open>
  \<^verbatim>\<open>export async function safeAsync\<close>: the promise the caller gets. It is resolved
  with the value the body returns, rejected with the value the body throws, and never
  settled where the body never resumes.
\<close>

definition safeAsync ::
  "(jsval \<Rightarrow> jsval promise) \<Rightarrow> (unit \<Rightarrow> jsval promise completion)
    \<Rightarrow> (jsval \<Rightarrow> jsval completion) option \<Rightarrow> string \<Rightarrow> jsval promise" where
  "safeAsync adopt fn mapError trace =
     (case safeAsync_body fn mapError trace of
        None \<Rightarrow> Pending
      | Some (Throws x) \<Rightarrow> Rejected x
      | Some (Returns x) \<Rightarrow> resolve_with adopt x)"

section \<open>Concrete callables\<close>

text \<open>
  The callables of the examples: \<^verbatim>\<open>() => v\<close>, \<^verbatim>\<open>() => { throw e }\<close>, and the
  asynchronous \<^verbatim>\<open>async () => v\<close>, \<^verbatim>\<open>async () => { throw e }\<close> and one whose
  promise never settles; the mappers \<^verbatim>\<open>e => ({ reason: e })\<close>,
  \<^verbatim>\<open>e => { throw "mapper failed" }\<close> and
  \<^verbatim>\<open>e => ({ reason: "r", then(res, rej) { rej("late") } })\<close>; and two behaviours of
  thenables: every \<^verbatim>\<open>then\<close> rejects with \<^verbatim>\<open>"late"\<close>, or every \<^verbatim>\<open>then\<close> does
  nothing.
\<close>

definition returning :: "jsval \<Rightarrow> unit \<Rightarrow> jsval completion" where
  "returning v u = Returns v"

definition throwing :: "jsval \<Rightarrow> unit \<Rightarrow> jsval completion" where
  "throwing e u = Throws e"

definition resolving :: "jsval \<Rightarrow> unit \<Rightarrow> jsval promise completion" where
  "resolving v u = Returns (Fulfilled v)"

definition rejecting :: "jsval \<Rightarrow> unit \<Rightarrow> jsval promise completion" where
  "rejecting e u = Returns (Rejected e)"

definition never_settling :: "unit \<Rightarrow> jsval promise completion" where
  "never_settling u = Returns Pending"

definition reason_mapper :: "jsval \<Rightarrow> jsval completion" where
  "reason_mapper e = Returns (VObj [(''reason'', e)])"

definition failing_mapper :: "jsval \<Rightarrow> jsval completion" where
  "failing_mapper e = Throws (VStr ''mapper failed'')"

definition thenable_mapper :: "jsval \<Rightarrow> jsval completion" where
  "thenable_mapper e = Returns (VObj [(''reason'', VStr ''r''), (''then'', VFun [])])"

definition then_rejects :: "jsval \<Rightarrow> jsval promise" where
  "then_rejects x = Rejected (VStr ''late'')"

definition then_ignores :: "jsval \<Rightarrow> jsval promise" where
  "then_ignores x = Pending"

section \<open>Property lists\<close>

lemma lookup_Nil [simp]: "lookup [] k = None"
  by (simp add: lookup_def)

lemma lookup_append:
  "lookup (ps @ qs) k = (case lookup qs k of None \<Rightarrow> lookup ps k | Some v \<Rightarrow> Some v)"
  by (simp add: lookup_def map_add_def split: option.splits)

lemma lookup_single [simp]: "lookup [(a, v)] k = (if k = a then Some v else None)"
  by (simp add: lookup_def)

lemma lookup_Cons:
  "lookup ((a, v) # ps) k =
     (case lookup ps k of None \<Rightarrow> (if k = a then Some v else None) | Some w \<Rightarrow> Some w)"
  using lookup_append [of "[(a, v)]" ps k] by (simp split: option.splits)

lemma lookup_None_iff: "lookup ps k = None \<longleftrightarrow> k \<notin> set (map fst ps)"
  by (simp add: lookup_def map_of_eq_None_iff)

text \<open>An index key is made of decimal digits, so no name with a letter is one.\<close>

lemma digit_char_digit: "d < 10 \<Longrightarrow> digit_char d \<in> set ''0123456789''"
  unfolding digit_char_def by (rule nth_mem) simp

lemma index_key_digits: "set (index_key n) \<subseteq> set ''0123456789''"
proof (induction n rule: index_key.induct)
  case (1 n)
  show ?case
  proof (cases "n < 10")
    case True
    then show ?thesis
      using digit_char_digit [of n] by (subst index_key.simps) simp
  next
    case False
    have "n mod 10 < 10" by simp
    then have "digit_char (n mod 10) \<in> set ''0123456789''" by (rule digit_char_digit)
    with False 1 show ?thesis
      by (subst index_key.simps) simp
  qed
qed

lemma indexed_keys: "set (map fst (indexed xs)) \<subseteq> range index_key"
  by (auto simp: indexed_def dest!: set_zip_leftD)

lemma lookup_indexed_None:
  assumes "c \<in> set k" and "c \<notin> set ''0123456789''"
  shows "lookup (indexed xs) k = None"
proof -
  have "k \<notin> range index_key"
    using assms index_key_digits by blast
  with indexed_keys [of xs] show ?thesis
    by (auto simp: lookup_None_iff)
qed

lemma lookup_indexed_ok [simp]: "lookup (indexed xs) ''ok'' = None"
  by (rule lookup_indexed_None [where c = "CHR ''o''"]) simp_all

lemma lookup_indexed_message [simp]: "lookup (indexed xs) ''message'' = None"
  by (rule lookup_indexed_None [where c = "CHR ''m''"]) simp_all

section \<open>The predicates, case by case\<close>

lemma isErr_VObj: "isErr (VObj ps) = Returns (lookup ps ''ok'' = Some (VBool False))"
  using lookup_None_iff [of ps "''ok''"]
  by (auto simp: isErr_def split: option.splits)

lemma isErr_VArr: "isErr (VArr xs) = Returns False"
  using lookup_None_iff [of "indexed xs" "''ok''"]
  by (simp add: isErr_def)

lemma isErr_other:
  "isErr VUndefined = Returns False"
  "isErr VNull = Returns False"
  "isErr (VBool b) = Returns False"
  "isErr (VNum n) = Returns False"
  "isErr (VStr s) = Returns False"
  "isErr (VFun ps) = Returns False"
  "isErr (VError c m) = Returns False"
  by (simp_all add: isErr_def)

lemma isErr_cases:
  "isErr v = Returns (\<exists>ps. v = VObj ps \<and> lookup ps ''ok'' = Some (VBool False))"
  by (cases v) (simp_all add: isErr_VObj isErr_VArr isErr_other)

lemma err_lookup:
  "lookup (own_enumerable (err r t)) k =
     (if k = ''stack'' then Some (VStr t)
      else case lookup (own_enumerable r) k of
             Some v \<Rightarrow> Some v
           | None \<Rightarrow> if k = ''ok'' then Some (VBool False) else None)"
  by (simp add: err_def lookup_append lookup_Cons split: option.splits)

lemma get_prop_err:
  "get_prop (err r t) k =
     Returns (case lookup (own_enumerable (err r t)) k of None \<Rightarrow> VUndefined | Some x \<Rightarrow> x)"
  by (simp add: err_def)

lemma err_marker_without_ok_field:
  assumes "lookup (own_enumerable r) ''ok'' = None"
  shows "get_prop (err r t) ''ok'' = Returns (VBool False)" and "isErr (err r t) = Returns True"
proof -
  show "get_prop (err r t) ''ok'' = Returns (VBool False)"
    using assms by (simp add: get_prop_err err_lookup)
  have "lookup (own_enumerable (err r t)) ''ok'' = Some (VBool False)"
    using assms by (simp add: err_lookup)
  then show "isErr (err r t) = Returns True"
    by (simp add: isErr_cases err_def)
qed

section \<open>The default mapper, case by case\<close>

lemma default_mapError_defined:
  assumes "e \<noteq> VNull" and "e \<noteq> VUndefined"
  shows "\<exists>m. get_prop e ''message'' = Returns m
           \<and> default_mapError e = Returns (VObj [(''reason'', m)])"
  using assms by (cases e) (simp_all add: default_mapError_def)

lemma get_prop_message_VStr: "get_prop (VStr s) ''message'' = Returns VUndefined"
  by (simp add: lookup_append)

lemma default_mapError_nullish:
  "default_mapError VNull = Throws (TypeError ''Cannot read properties of null'')"
  "default_mapError VUndefined = Throws (TypeError ''Cannot read properties of undefined'')"
  by (simp_all add: default_mapError_def)

section \<open>Thenables\<close>

lemma thenable_primitive [simp]:
  "\<not> thenable VUndefined" "\<not> thenable VNull" "\<not> thenable (VBool b)"
  "\<not> thenable (VNum n)" "\<not> thenable (VStr s)"
  by (simp_all add: thenable_def is_object_def)

lemma lookup_indexed_then [simp]: "lookup (indexed xs) ''then'' = None"
  by (rule lookup_indexed_None [where c = "CHR ''t''"]) simp_all

lemma thenable_VArr [simp]: "\<not> thenable (VArr xs)"
  by (simp add: thenable_def is_object_def lookup_append)

lemma thenable_VError [simp]: "\<not> thenable (VError c m)"
  by (simp add: thenable_def is_object_def lookup_Cons)

lemma thenable_VObj:
  "thenable (VObj ps) \<longleftrightarrow> (\<exists>f. lookup ps ''then'' = Some (VFun f))"
proof (cases "lookup ps ''then''")
  case None
  then show ?thesis by (simp add: thenable_def is_object_def)
next
  case (Some y)
  then show ?thesis by (cases y) (simp_all add: thenable_def is_object_def)
qed

lemma thenable_err:
  "thenable (err r t) \<longleftrightarrow> (\<exists>f. lookup (own_enumerable r) ''then'' = Some (VFun f))"
proof -
  have "lookup (own_enumerable (err r t)) ''then'' = lookup (own_enumerable r) ''then''"
    by (simp add: err_lookup split: option.splits)
  then show ?thesis
    using thenable_VObj [of "own_enumerable (err r t)"] by (simp add: err_def)
qed

lemma safeAsync_never_settling: "safeAsync adopt never_settling mapError t = Pending"
  by (simp add: safeAsync_def safeAsync_body_def never_settling_def)

text \<open>
  What the body of \<^verbatim>\<open>safeAsync\<close> does, by what the call of \<open>fn\<close> does: the value it
  returns, the value it throws, or that it never resumes.
\<close>

lemma safeAsync_body_cases:
  "safeAsync_body fn mapError t = Some (Returns y)
     \<longleftrightarrow> fn () = Returns (Fulfilled y)
         \<or> (\<exists>e r. (fn () = Returns (Rejected e) \<or> fn () = Throws e)
                \<and> mapper_of mapError e = Returns r \<and> y = err r t)"
  "safeAsync_body fn mapError t = Some (Throws x)
     \<longleftrightarrow> (\<exists>e. (fn () = Returns (Rejected e) \<or> fn () = Throws e)
              \<and> mapper_of mapError e = Throws x)"
  "safeAsync_body fn mapError t = None \<longleftrightarrow> fn () = Returns Pending"
  by (auto simp: safeAsync_body_def Let_def ok_def split: completion.splits promise.splits)

lemma safeAsync_by_body:
  "safeAsync adopt fn mapError t = st
     \<longleftrightarrow> (safeAsync_body fn mapError t = None \<and> st = Pending)
         \<or> (\<exists>x. safeAsync_body fn mapError t = Some (Throws x) \<and> st = Rejected x)
         \<or> (\<exists>y. safeAsync_body fn mapError t = Some (Returns y)
                \<and> st = (if thenable y then adopt y else Fulfilled y))"
  by (auto simp: safeAsync_def resolve_with_def split: option.splits completion.splits)

lemma safeAsync_state:
  "safeAsync adopt fn mapError t = Rejected x
     \<longleftrightarrow> (\<exists>e'. (fn () = Returns (Rejected e') \<or> fn () = Throws e')
              \<and> mapper_of mapError e' = Throws x)
         \<or> (\<exists>y. thenable y \<and> adopt y = Rejected x
              \<and> (fn () = Returns (Fulfilled y)
                  \<or> (\<exists>e' r'. (fn () = Returns (Rejected e') \<or> fn () = Throws e')
                        \<and> mapper_of mapError e' = Returns r' \<and> y = err r' t)))"
proof -
  have "safeAsync adopt fn mapError t = Rejected x
     \<longleftrightarrow> safeAsync_body fn mapError t = Some (Throws x)
         \<or> (\<exists>y. safeAsync_body fn mapError t = Some (Returns y)
                \<and> thenable y \<and> adopt y = Rejected x)"
    by (auto simp: safeAsync_by_body split: if_splits)
  then show ?thesis
    unfolding safeAsync_body_cases by blast
qed

lemma safeAsync_unsettled:
  "safeAsync adopt fn mapError t = Pending
     \<longleftrightarrow> fn () = Returns Pending
         \<or> (\<exists>y. thenable y \<and> adopt y = Pending
              \<and> (fn () = Returns (Fulfilled y)
                  \<or> (\<exists>e' r'. (fn () = Returns (Rejected e') \<or> fn () = Throws e')
                        \<and> mapper_of mapError e' = Returns r' \<and> y = err r' t)))"
proof -
  have "safeAsync adopt fn mapError t = Pending
     \<longleftrightarrow> safeAsync_body fn mapError t = None
         \<or> (\<exists>y. safeAsync_body fn mapError t = Some (Returns y)
                \<and> thenable y \<and> adopt y = Pending)"
    by (auto simp: safeAsync_by_body split: if_splits)
  then show ?thesis
    unfolding safeAsync_body_cases by blast
qed

lemma safeAsync_thenable_reason_rejects:
  "safeAsync then_rejects (rejecting (new_Error ''boom'')) (Some thenable_mapper) ''Error at err''
     = Rejected (VStr ''late'')"
  by (simp add: safeAsync_def safeAsync_body_def rejecting_def mapper_of_def
      thenable_mapper_def resolve_with_def thenable_err lookup_Cons then_rejects_def)

lemma safeAsync_thenable_reason_pending:
  "safeAsync then_ignores (rejecting (new_Error ''boom'')) (Some thenable_mapper) ''Error at err''
     = Pending"
  by (simp add: safeAsync_def safeAsync_body_def rejecting_def mapper_of_def
      thenable_mapper_def resolve_with_def thenable_err lookup_Cons then_ignores_def)

section \<open>The success constructor\<close>

text \<open>
  C5: for every value \<open>v\<close>, \<^verbatim>\<open>ok(v)\<close> is \<open>v\<close> itself, with no envelope added; so it is
  for \<^verbatim>\<open>null\<close>, for arrays, for primitives and for plain objects.
\<close>

theorem ok_identity:
  "ok v = v
   \<and> ok VNull = VNull \<and> ok (VArr xs) = VArr xs \<and> ok (VNum n) = VNum n
   \<and> ok (VStr s) = VStr s \<and> ok (VBool b) = VBool b \<and> ok VUndefined = VUndefined
   \<and> ok (VObj ps) = VObj ps"
  by (simp add: ok_def)

section \<open>The predicates\<close>

text \<open>
  C3: for every value \<open>v\<close>, \<^verbatim>\<open>isErr(v)\<close> returns true if and only if \<open>v\<close> is an object
  (a non-null value of runtime type object) whose field \<^verbatim>\<open>ok\<close> is \<^verbatim>\<open>false\<close>; every
  other value is classified as success: \<^verbatim>\<open>isErr\<close> false and \<^verbatim>\<open>isOk\<close> true. Neither
  predicate throws.
\<close>

theorem isErr_iff_marked_object:
  "isErr v = Returns (\<exists>ps. v = VObj ps \<and> lookup ps ''ok'' = Some (VBool False))
   \<and> isOk v = Returns (\<not> (\<exists>ps. v = VObj ps \<and> lookup ps ''ok'' = Some (VBool False)))"
  by (simp add: isOk_def isErr_cases)

theorem isErr_iff_marked_object_witness:
  "isErr (VObj [(''ok'', VBool False), (''reason'', VStr ''r'')]) = Returns True
   \<and> isOk (VObj [(''ok'', VBool False), (''reason'', VStr ''r'')]) = Returns False
   \<and> isErr VNull = Returns False \<and> isOk VNull = Returns True
   \<and> isErr (VNum 42) = Returns False \<and> isOk (VNum 42) = Returns True
   \<and> isErr (VArr [VNum 1, VNum 2]) = Returns False \<and> isOk (VArr [VNum 1, VNum 2]) = Returns True
   \<and> isErr (VObj [(''b'', VStr ''test'')]) = Returns False
   \<and> isOk (VObj [(''b'', VStr ''test'')]) = Returns True"
  using isErr_iff_marked_object [of "VObj [(''ok'', VBool False), (''reason'', VStr ''r'')]"]
    isErr_iff_marked_object [of VNull]
    isErr_iff_marked_object [of "VNum 42"]
    isErr_iff_marked_object [of "VArr [VNum 1, VNum 2]"]
    isErr_iff_marked_object [of "VObj [(''b'', VStr ''test'')]"]
  by (simp add: lookup_Cons)

text \<open>
  C8: for every value \<open>r\<close>, \<^verbatim>\<open>isOk(r)\<close> is the negation of \<^verbatim>\<open>isErr(r)\<close>: both
  return, and exactly one of them returns true. In particular
  \<^verbatim>\<open>isErr(err({reason: "r"}))\<close> is true and \<^verbatim>\<open>isOk(err({reason: "r"}))\<close> is false.
\<close>

theorem isOk_negates_isErr:
  "(\<exists>b. isErr r = Returns b \<and> isOk r = Returns (\<not> b))
   \<and> isErr (err (VObj [(''reason'', VStr ''r'')]) t) = Returns True
   \<and> isOk (err (VObj [(''reason'', VStr ''r'')]) t) = Returns False"
  by (simp add: isOk_def isErr_cases err_def lookup_Cons)

theorem isOk_negates_isErr_witness:
  "(\<exists>b. isErr (VObj [(''ok'', VBool False)]) = Returns b
        \<and> isOk (VObj [(''ok'', VBool False)]) = Returns (\<not> b))
   \<and> isErr (err (VObj [(''reason'', VStr ''r'')]) ''Error at err'') = Returns True
   \<and> isOk (err (VObj [(''reason'', VStr ''r'')]) ''Error at err'') = Returns False"
  using isOk_negates_isErr [of "VObj [(''ok'', VBool False)]" "''Error at err''"]
  by simp

text \<open>
  C10: \<^verbatim>\<open>isErr\<close> tests the runtime type tag first, so a value whose runtime type is
  not object is classified as success even if it carries a property \<^verbatim>\<open>ok\<close> equal to
  \<^verbatim>\<open>false\<close>: so is every function, whatever its properties. Only values of runtime
  type object are classified as failures.
\<close>

theorem isErr_needs_object_type:
  "isErr (VFun ps) = Returns False \<and> isOk (VFun ps) = Returns True
   \<and> (typeof v \<noteq> ''object'' \<longrightarrow> isErr v = Returns False \<and> isOk v = Returns True)"
  by (simp add: isOk_def isErr_def)

theorem isErr_needs_object_type_witness:
  "isErr (VFun [(''ok'', VBool False)]) = Returns False
   \<and> isOk (VFun [(''ok'', VBool False)]) = Returns True
   \<and> typeof (VFun [(''ok'', VBool False)]) \<noteq> ''object''
   \<and> typeof (VStr ''ok'') \<noteq> ''object''
   \<and> isErr (VStr ''ok'') = Returns False \<and> isOk (VStr ''ok'') = Returns True"
  using isErr_needs_object_type [of "[(''ok'', VBool False)]" "VStr ''ok''"]
  by simp

section \<open>The failure constructor\<close>

text \<open>
  C9: for every reason value \<open>r\<close>, \<^verbatim>\<open>err(r)\<close> keeps every field of \<open>r\<close> other than
  \<^verbatim>\<open>stack\<close> with its value, and its \<^verbatim>\<open>stack\<close> field is the freshly captured trace,
  whatever \<^verbatim>\<open>stack\<close> the caller supplied: the fresh trace is written after the fields
  of \<open>r\<close> are copied.
\<close>

theorem err_preserves_all_but_stack:
  "get_prop (err r t) ''stack'' = Returns (VStr t)
   \<and> (k \<noteq> ''stack'' \<and> lookup (own_enumerable r) k = Some v
        \<longrightarrow> get_prop (err r t) k = Returns v)"
  by (simp add: get_prop_err err_lookup)

theorem err_preserves_all_but_stack_witness:
  "get_prop (err (VObj [(''reason'', VStr ''X''), (''stack'', VStr ''mine''), (''code'', VNum 7)])
      ''Error at err'') ''stack'' = Returns (VStr ''Error at err'')
   \<and> ''code'' \<noteq> ''stack''
   \<and> lookup (own_enumerable
         (VObj [(''reason'', VStr ''X''), (''stack'', VStr ''mine''), (''code'', VNum 7)]))
        ''code'' = Some (VNum 7)
   \<and> get_prop (err (VObj [(''reason'', VStr ''X''), (''stack'', VStr ''mine''), (''code'', VNum 7)])
      ''Error at err'') ''code'' = Returns (VNum 7)"
  using err_preserves_all_but_stack
    [of "VObj [(''reason'', VStr ''X''), (''stack'', VStr ''mine''), (''code'', VNum 7)]"
        "''Error at err''" "''code''" "VNum 7"]
  by (simp add: lookup_Cons)

text \<open>
  C6 says that the marker \<^verbatim>\<open>ok\<close> of \<^verbatim>\<open>err(reasonShape)\<close> is \<^verbatim>\<open>false\<close> even when
  \<open>reasonShape\<close> itself has a field \<^verbatim>\<open>ok\<close>. The object literal of \<^verbatim>\<open>err\<close> writes
  \<^verbatim>\<open>ok: false\<close> before it spreads the reason, so a field \<^verbatim>\<open>ok\<close> of the reason
  replaces the marker: \<^verbatim>\<open>err({reason: "X", ok: true})\<close> has \<^verbatim>\<open>ok\<close> equal to
  \<^verbatim>\<open>true\<close>, and \<^verbatim>\<open>isErr\<close> classifies it as a success. (Where the reason has no field
  \<^verbatim>\<open>ok\<close> the marker is \<^verbatim>\<open>false\<close>: lemma \<open>err_marker_without_ok_field\<close>.)
\<close>

theorem err_marker_overridden:
  "get_prop (err (VObj [(''reason'', VStr ''X''), (''ok'', VBool True)]) ''Error at err'') ''ok''
     = Returns (VBool True)
   \<and> isErr (err (VObj [(''reason'', VStr ''X''), (''ok'', VBool True)]) ''Error at err'')
     = Returns False
   \<and> isOk (err (VObj [(''reason'', VStr ''X''), (''ok'', VBool True)]) ''Error at err'')
     = Returns True"
  by (simp add: get_prop_err err_lookup isOk_def isErr_cases lookup_Cons err_def)

section \<open>The wrappers\<close>

text \<open>
  C4: if \<^verbatim>\<open>fn()\<close> completes normally with \<open>v\<close>, \<^verbatim>\<open>safe(fn, mapError)\<close> returns
  \<^verbatim>\<open>ok(v)\<close>, that is \<open>v\<close> itself; if \<^verbatim>\<open>fn()\<close> raises \<open>e\<close> and the mapper yields \<open>r\<close>
  on it, \<^verbatim>\<open>safe\<close> returns \<^verbatim>\<open>err(r)\<close>, whose \<^verbatim>\<open>reason\<close> is the one the mapper
  produced.
\<close>

theorem safe_result:
  "(fn () = Returns v \<longrightarrow> safe fn mapError t = Returns (ok v) \<and> safe fn mapError t = Returns v)
   \<and> (fn () = Throws e \<and> mapper_of mapError e = Returns r
        \<longrightarrow> safe fn mapError t = Returns (err r t)
          \<and> (\<forall>x. lookup (own_enumerable r) ''reason'' = Some x
                \<longrightarrow> get_prop (err r t) ''reason'' = Returns x))"
  by (simp add: safe_def ok_def get_prop_err err_lookup)

theorem safe_result_witness:
  "returning (VNum 42) () = Returns (VNum 42)
   \<and> safe (returning (VNum 42)) None ''Error at err'' = Returns (VNum 42)
   \<and> throwing (VStr ''raw'') () = Throws (VStr ''raw'')
   \<and> mapper_of (Some reason_mapper) (VStr ''raw'') = Returns (VObj [(''reason'', VStr ''raw'')])
   \<and> safe (throwing (VStr ''raw'')) (Some reason_mapper) ''Error at err''
       = Returns (err (VObj [(''reason'', VStr ''raw'')]) ''Error at err'')
   \<and> get_prop (err (VObj [(''reason'', VStr ''raw'')]) ''Error at err'') ''reason''
       = Returns (VStr ''raw'')"
  using safe_result [of "returning (VNum 42)" "VNum 42" None "''Error at err''"]
    safe_result [of "throwing (VStr ''raw'')" _ "Some reason_mapper" "''Error at err''"
      "VStr ''raw''" "VObj [(''reason'', VStr ''raw'')]"]
  by (simp add: returning_def throwing_def reason_mapper_def mapper_of_def ok_def)

text \<open>
  C1 as written says that \<^verbatim>\<open>safe\<close> returns a Result for every callable and every
  mapper. The mapper runs in the catch block, outside any \<^verbatim>\<open>try\<close>: what it throws
  leaves \<^verbatim>\<open>safe\<close>.
\<close>

theorem safe_mapper_throws_counterexample:
  "safe (throwing (new_Error ''boom'')) (Some failing_mapper) ''Error at err''
     = Throws (VStr ''mapper failed'')"
  by (simp add: safe_def throwing_def mapper_of_def failing_mapper_def)

text \<open>
  C1, amended: \<^verbatim>\<open>safe(fn, mapError)\<close> returns a Result whenever the mapper in effect
  returns normally on the value \<open>fn\<close> throws, if it throws one; an exception leaves
  \<^verbatim>\<open>safe\<close> exactly when \<open>fn\<close> throws and the mapper throws on the value caught, and it
  is the mapper's exception. With the mapper omitted, \<^verbatim>\<open>safe\<close> returns a failure
  Result for every thrown value other than \<^verbatim>\<open>null\<close> and \<^verbatim>\<open>undefined\<close>, strings and
  other non-Error values included.
\<close>

theorem safe_returns_unless_mapper_throws:
  "((\<forall>e. fn () = Throws e \<longrightarrow> (\<exists>r. mapper_of mapError e = Returns r))
      \<longrightarrow> (\<exists>res. safe fn mapError t = Returns res))
   \<and> (safe fn mapError t = Throws x
        \<longleftrightarrow> (\<exists>e. fn () = Throws e \<and> mapper_of mapError e = Throws x))
   \<and> (e' \<noteq> VNull \<and> e' \<noteq> VUndefined \<and> fn () = Throws e'
        \<longrightarrow> (\<exists>m. safe fn None t = Returns (err (VObj [(''reason'', m)]) t)))"
proof (intro conjI impI)
  assume h: "\<forall>e. fn () = Throws e \<longrightarrow> (\<exists>r. mapper_of mapError e = Returns r)"
  show "\<exists>res. safe fn mapError t = Returns res"
  proof (cases "fn ()")
    case (Returns v)
    then show ?thesis by (simp add: safe_def)
  next
    case (Throws e)
    with h obtain r where "mapper_of mapError e = Returns r" by blast
    with Throws show ?thesis by (simp add: safe_def)
  qed
next
  show "safe fn mapError t = Throws x
        \<longleftrightarrow> (\<exists>e. fn () = Throws e \<and> mapper_of mapError e = Throws x)"
    by (auto simp: safe_def split: completion.splits)
next
  assume h: "e' \<noteq> VNull \<and> e' \<noteq> VUndefined \<and> fn () = Throws e'"
  then obtain m where "default_mapError e' = Returns (VObj [(''reason'', m)])"
    using default_mapError_defined [of e'] by blast
  with h show "\<exists>m. safe fn None t = Returns (err (VObj [(''reason'', m)]) t)"
    by (auto simp: safe_def mapper_of_def)
qed

theorem safe_returns_unless_mapper_throws_witness:
  "(\<exists>res. safe (throwing (VStr ''raw'')) (Some reason_mapper) ''Error at err'' = Returns res)
   \<and> (safe (throwing (VStr ''raw'')) (Some failing_mapper) ''Error at err''
        = Throws (VStr ''mapper failed''))
   \<and> VNum 7 \<noteq> VNull \<and> VNum 7 \<noteq> VUndefined \<and> throwing (VNum 7) () = Throws (VNum 7)
   \<and> (\<exists>m. safe (throwing (VNum 7)) None ''Error at err''
           = Returns (err (VObj [(''reason'', m)]) ''Error at err''))"
  using safe_returns_unless_mapper_throws
      [of "throwing (VStr ''raw'')" "Some reason_mapper" "''Error at err''" "VStr ''x''" "VNum 7"]
    safe_returns_unless_mapper_throws
      [of "throwing (VStr ''raw'')" "Some failing_mapper" "''Error at err''"
          "VStr ''mapper failed''" "VNum 7"]
    safe_returns_unless_mapper_throws
      [of "throwing (VNum 7)" None "''Error at err''" "VStr ''x''" "VNum 7"]
  by (simp add: throwing_def mapper_of_def reason_mapper_def failing_mapper_def)

text \<open>
  C2 as written says that the promise of \<^verbatim>\<open>safeAsync\<close> is always fulfilled with a
  Result and never rejected. As in \<^verbatim>\<open>safe\<close>, the mapper runs in the catch block: what
  it throws rejects the promise returned.
\<close>

theorem safeAsync_mapper_throws_counterexample:
  "safeAsync then_ignores (rejecting (new_Error ''boom'')) (Some failing_mapper) ''Error at err''
     = Rejected (VStr ''mapper failed'')"
  by (simp add: safeAsync_def safeAsync_body_def rejecting_def mapper_of_def failing_mapper_def)

text \<open>
  C2, amended: the promise of \<^verbatim>\<open>safeAsync(fn, mapError)\<close> is resolved with \<open>v\<close> when the
  wrapped promise is fulfilled with \<open>v\<close>, and with \<^verbatim>\<open>err(r)\<close> when the wrapped promise
  is rejected with \<open>e\<close> (or \<open>fn\<close> throws \<open>e\<close>) and the mapper in effect yields \<open>r\<close> on \<open>e\<close>.
  Resolved with a value that is no thenable, it is fulfilled with that value; resolved
  with a thenable, it follows the thenable; and \<^verbatim>\<open>err(r)\<close> is a thenable exactly when
  \<open>r\<close> has an own enumerable field \<^verbatim>\<open>then\<close> that is callable. It is rejected with the
  mapper's exception when the mapper throws on the value caught, and it stays unsettled
  when the wrapped promise never settles. So it is rejected exactly when the mapper
  throws or a thenable it follows rejects, and it stays unsettled exactly when the wrapped
  promise or a thenable it follows never settles.
\<close>

theorem safeAsync_settles_unless_mapper_throws:
  "(fn () = Returns (Fulfilled v)
      \<longrightarrow> safeAsync adopt fn mapError t = (if thenable v then adopt v else Fulfilled v))
   \<and> ((fn () = Returns (Rejected e) \<or> fn () = Throws e) \<and> mapper_of mapError e = Returns r
        \<longrightarrow> safeAsync adopt fn mapError t
              = (if thenable (err r t) then adopt (err r t) else Fulfilled (err r t)))
   \<and> (thenable (err r t) \<longleftrightarrow> (\<exists>f. lookup (own_enumerable r) ''then'' = Some (VFun f)))
   \<and> ((fn () = Returns (Rejected e) \<or> fn () = Throws e) \<and> mapper_of mapError e = Throws x
        \<longrightarrow> safeAsync adopt fn mapError t = Rejected x)
   \<and> (fn () = Returns Pending \<longrightarrow> safeAsync adopt fn mapError t = Pending)
   \<and> (safeAsync adopt fn mapError t = Rejected x
        \<longleftrightarrow> (\<exists>e'. (fn () = Returns (Rejected e') \<or> fn () = Throws e')
                    \<and> mapper_of mapError e' = Throws x)
            \<or> (\<exists>y. thenable y \<and> adopt y = Rejected x
                    \<and> (fn () = Returns (Fulfilled y)
                        \<or> (\<exists>e' r'. (fn () = Returns (Rejected e') \<or> fn () = Throws e')
                              \<and> mapper_of mapError e' = Returns r' \<and> y = err r' t))))
   \<and> (safeAsync adopt fn mapError t = Pending
        \<longleftrightarrow> fn () = Returns Pending
            \<or> (\<exists>y. thenable y \<and> adopt y = Pending
                    \<and> (fn () = Returns (Fulfilled y)
                        \<or> (\<exists>e' r'. (fn () = Returns (Rejected e') \<or> fn () = Throws e')
                              \<and> mapper_of mapError e' = Returns r' \<and> y = err r' t))))"
proof (intro conjI)
  show "fn () = Returns (Fulfilled v)
      \<longrightarrow> safeAsync adopt fn mapError t = (if thenable v then adopt v else Fulfilled v)"
    by (simp add: safeAsync_def safeAsync_body_def resolve_with_def ok_def)
  show "(fn () = Returns (Rejected e) \<or> fn () = Throws e) \<and> mapper_of mapError e = Returns r
        \<longrightarrow> safeAsync adopt fn mapError t
              = (if thenable (err r t) then adopt (err r t) else Fulfilled (err r t))"
    by (auto simp: safeAsync_def safeAsync_body_def resolve_with_def)
  show "thenable (err r t) \<longleftrightarrow> (\<exists>f. lookup (own_enumerable r) ''then'' = Some (VFun f))"
    by (rule thenable_err)
  show "(fn () = Returns (Rejected e) \<or> fn () = Throws e) \<and> mapper_of mapError e = Throws x
        \<longrightarrow> safeAsync adopt fn mapError t = Rejected x"
    by (auto simp: safeAsync_def safeAsync_body_def)
  show "fn () = Returns Pending \<longrightarrow> safeAsync adopt fn mapError t = Pending"
    by (simp add: safeAsync_def safeAsync_body_def)
  show "safeAsync adopt fn mapError t = Rejected x
        \<longleftrightarrow> (\<exists>e'. (fn () = Returns (Rejected e') \<or> fn () = Throws e')
                    \<and> mapper_of mapError e' = Throws x)
            \<or> (\<exists>y. thenable y \<and> adopt y = Rejected x
                    \<and> (fn () = Returns (Fulfilled y)
                        \<or> (\<exists>e' r'. (fn () = Returns (Rejected e') \<or> fn () = Throws e')
                              \<and> mapper_of mapError e' = Returns r' \<and> y = err r' t)))"
    by (rule safeAsync_state)
  show "safeAsync adopt fn mapError t = Pending
        \<longleftrightarrow> fn () = Returns Pending
            \<or> (\<exists>y. thenable y \<and> adopt y = Pending
                    \<and> (fn () = Returns (Fulfilled y)
                        \<or> (\<exists>e' r'. (fn () = Returns (Rejected e') \<or> fn () = Throws e')
                              \<and> mapper_of mapError e' = Returns r' \<and> y = err r' t)))"
    using safeAsync_unsettled [of adopt fn mapError t] by blast
qed

theorem safeAsync_settles_unless_mapper_throws_witness:
  "resolving (VNum 7) () = Returns (Fulfilled (VNum 7))
   \<and> safeAsync then_rejects (resolving (VNum 7)) None ''Error at err'' = Fulfilled (VNum 7)
   \<and> rejecting (new_Error ''x'') () = Returns (Rejected (new_Error ''x''))
   \<and> mapper_of None (new_Error ''x'') = Returns (VObj [(''reason'', VStr ''x'')])
   \<and> safeAsync then_rejects (rejecting (new_Error ''x'')) None ''Error at err''
        = Fulfilled (err (VObj [(''reason'', VStr ''x'')]) ''Error at err'')
   \<and> mapper_of (Some thenable_mapper) (new_Error ''x'')
        = Returns (VObj [(''reason'', VStr ''r''), (''then'', VFun [])])
   \<and> safeAsync then_rejects (rejecting (new_Error ''x'')) (Some thenable_mapper) ''Error at err''
        = Rejected (VStr ''late'')
   \<and> mapper_of (Some failing_mapper) (new_Error ''x'') = Throws (VStr ''mapper failed'')
   \<and> safeAsync then_rejects (rejecting (new_Error ''x'')) (Some failing_mapper) ''Error at err''
        = Rejected (VStr ''mapper failed'')
   \<and> never_settling () = Returns Pending
   \<and> safeAsync then_rejects never_settling None ''Error at err'' = Pending"
proof -
  have f1: "resolving (VNum 7) () = Returns (Fulfilled (VNum 7))"
    by (simp add: resolving_def)
  have f2: "rejecting (new_Error ''x'') () = Returns (Rejected (new_Error ''x''))"
    by (simp add: rejecting_def)
  have m1: "mapper_of None (new_Error ''x'') = Returns (VObj [(''reason'', VStr ''x'')])"
    by (simp add: mapper_of_def default_mapError_def new_Error_def lookup_Cons)
  have m2: "mapper_of (Some thenable_mapper) (new_Error ''x'')
        = Returns (VObj [(''reason'', VStr ''r''), (''then'', VFun [])])"
    by (simp add: mapper_of_def thenable_mapper_def)
  have m3: "mapper_of (Some failing_mapper) (new_Error ''x'') = Throws (VStr ''mapper failed'')"
    by (simp add: mapper_of_def failing_mapper_def)
  have f3: "never_settling () = Returns Pending"
    by (simp add: never_settling_def)
  have t1: "\<not> thenable (err (VObj [(''reason'', VStr ''x'')]) ''Error at err'')"
    by (simp add: thenable_err lookup_Cons)
  have t2: "thenable (err (VObj [(''reason'', VStr ''r''), (''then'', VFun [])]) ''Error at err'')"
    by (simp add: thenable_err lookup_Cons)
  have r1: "safeAsync then_rejects (resolving (VNum 7)) None ''Error at err'' = Fulfilled (VNum 7)"
    using f1 safeAsync_settles_unless_mapper_throws
      [of "resolving (VNum 7)" "VNum 7" then_rejects None "''Error at err''", THEN conjunct1]
    by simp
  have r2: "safeAsync then_rejects (rejecting (new_Error ''x'')) None ''Error at err''
        = Fulfilled (err (VObj [(''reason'', VStr ''x'')]) ''Error at err'')"
    using f2 m1 t1 safeAsync_settles_unless_mapper_throws
      [of "rejecting (new_Error ''x'')" _ then_rejects None "''Error at err''"
          "new_Error ''x''" "VObj [(''reason'', VStr ''x'')]",
        THEN conjunct2, THEN conjunct1]
    by simp
  have r3: "safeAsync then_rejects (rejecting (new_Error ''x'')) (Some thenable_mapper)
        ''Error at err'' = Rejected (VStr ''late'')"
    using f2 m2 t2 safeAsync_settles_unless_mapper_throws
      [of "rejecting (new_Error ''x'')" _ then_rejects "Some thenable_mapper"
          "''Error at err''" "new_Error ''x''"
          "VObj [(''reason'', VStr ''r''), (''then'', VFun [])]",
        THEN conjunct2, THEN conjunct1]
    by (simp add: then_rejects_def)
  have r4: "safeAsync then_rejects (rejecting (new_Error ''x'')) (Some failing_mapper)
        ''Error at err'' = Rejected (VStr ''mapper failed'')"
    using f2 m3 safeAsync_settles_unless_mapper_throws
      [of "rejecting (new_Error ''x'')" _ then_rejects "Some failing_mapper"
          "''Error at err''" "new_Error ''x''" _ "VStr ''mapper failed''",
        THEN conjunct2, THEN conjunct2, THEN conjunct2, THEN conjunct1]
    by simp
  have r5: "safeAsync then_rejects never_settling None ''Error at err'' = Pending"
    using f3 safeAsync_settles_unless_mapper_throws
      [of never_settling _ then_rejects None "''Error at err''",
        THEN conjunct2, THEN conjunct2, THEN conjunct2, THEN conjunct2, THEN conjunct1]
    by simp
  from f1 f2 f3 m1 m2 m3 r1 r2 r3 r4 r5 show ?thesis
    by (intro conjI)
qed

text \<open>
  C7 as written says that the default mapper falls back on the string form of the
  exception when it has no message, so that a thrown non-Error value still yields a
  string reason. The default mapper only reads \<^verbatim>\<open>message\<close>: for the thrown string
  \<^verbatim>\<open>"raw"\<close> the reason is \<^verbatim>\<open>undefined\<close>.
\<close>

theorem default_mapper_no_string_form_counterexample:
  "safe (throwing (VStr ''raw'')) None ''Error at err''
     = Returns (VObj [(''ok'', VBool False), (''reason'', VUndefined),
                      (''stack'', VStr ''Error at err'')])"
  by (simp add: safe_def throwing_def mapper_of_def default_mapError_def err_def
      get_prop_message_VStr del: get_prop.simps)

text \<open>
  C7, amended: when the caller omits the mapper, \<^verbatim>\<open>safe\<close> and \<^verbatim>\<open>safeAsync\<close> use a
  default mapper that, for every caught value \<open>e\<close> other than \<^verbatim>\<open>null\<close> and
  \<^verbatim>\<open>undefined\<close>, produces \<^verbatim>\<open>{ reason: e.message }\<close>, the value of the property
  \<^verbatim>\<open>message\<close> of \<open>e\<close>, with no fallback on a string form. In particular
  \<^verbatim>\<open>safe(() => { throw new Error("boom") })\<close> returns a failure whose reason is
  \<^verbatim>\<open>"boom"\<close>, and a thrown string, which has no property \<^verbatim>\<open>message\<close>, yields the
  reason \<^verbatim>\<open>undefined\<close>.
\<close>

theorem default_mapper_reads_message:
  "safe fn None t = safe fn (Some default_mapError) t
   \<and> safeAsync adopt afn None t = safeAsync adopt afn (Some default_mapError) t
   \<and> (e \<noteq> VNull \<and> e \<noteq> VUndefined
        \<longrightarrow> (\<exists>m. get_prop e ''message'' = Returns m
                 \<and> default_mapError e = Returns (VObj [(''reason'', m)])))
   \<and> safe (throwing (new_Error ''boom'')) None t
        = Returns (err (VObj [(''reason'', VStr ''boom'')]) t)
   \<and> get_prop (err (VObj [(''reason'', VStr ''boom'')]) t) ''reason'' = Returns (VStr ''boom'')
   \<and> default_mapError (VStr s) = Returns (VObj [(''reason'', VUndefined)])"
proof (intro conjI impI)
  have same: "mapper_of None = mapper_of (Some default_mapError)"
    by (simp add: mapper_of_def)
  show "safe fn None t = safe fn (Some default_mapError) t"
    by (simp only: safe_def same)
  show "safeAsync adopt afn None t = safeAsync adopt afn (Some default_mapError) t"
    by (simp only: safeAsync_def safeAsync_body_def same)
  show "safe (throwing (new_Error ''boom'')) None t
        = Returns (err (VObj [(''reason'', VStr ''boom'')]) t)"
    by (simp add: safe_def throwing_def mapper_of_def default_mapError_def new_Error_def
        lookup_Cons)
  show "get_prop (err (VObj [(''reason'', VStr ''boom'')]) t) ''reason'' = Returns (VStr ''boom'')"
    by (simp add: get_prop_err err_lookup)
  show "default_mapError (VStr s) = Returns (VObj [(''reason'', VUndefined)])"
    by (simp add: default_mapError_def get_prop_message_VStr del: get_prop.simps)
next
  assume "e \<noteq> VNull \<and> e \<noteq> VUndefined"
  then show "\<exists>m. get_prop e ''message'' = Returns m
                 \<and> default_mapError e = Returns (VObj [(''reason'', m)])"
    using default_mapError_defined [of e] by blast
qed

theorem default_mapper_reads_message_witness:
  "new_Error ''boom'' \<noteq> VNull \<and> new_Error ''boom'' \<noteq> VUndefined
   \<and> get_prop (new_Error ''boom'') ''message'' = Returns (VStr ''boom'')
   \<and> default_mapError (new_Error ''boom'')
        = Returns (VObj [(''reason'', VStr ''boom'')])
   \<and> safe (throwing (new_Error ''boom'')) None ''Error at err''
        = Returns (err (VObj [(''reason'', VStr ''boom'')]) ''Error at err'')
   \<and> default_mapError (VStr ''raw'') = Returns (VObj [(''reason'', VUndefined)])"
proof -
  have ne: "new_Error ''boom'' \<noteq> VNull
      \<and> new_Error ''boom'' \<noteq> VUndefined"
    by (simp add: new_Error_def)
  have gp: "get_prop (new_Error ''boom'') ''message'' = Returns (VStr ''boom'')"
    by (simp add: new_Error_def lookup_Cons)
  show ?thesis
    using ne gp default_mapper_reads_message
      [of "throwing (new_Error ''boom'')" "''Error at err''" then_ignores "resolving VNull"
          "new_Error ''boom''" "''raw''"]
    by auto
qed

end
